theory Spec2Isabelle
  imports Main "HOL-Library.Finite_Map" "HOL-Library.Sublist"
begin

section \<open>JavaScript values\<close>

text \<open>
  The service worker receives its inputs as JavaScript values: the parsed push payload, the
  data of a posted message, the \<^verbatim>\<open>data\<close> of a clicked notification. An object is a finite
  map from property names to values. No handler computes with a number; the only thing ever
  observed of one is whether it is truthy, so the finite numbers are integers and \<open>NaN\<close> is
  kept apart (with \<open>0\<close> it is the falsy number).
\<close>

datatype jsval =
    JUndefined
  | JNull
  | JBool bool
  | JNum int
  | JNaN
  | JStr string
  | JArr "jsval list"
  | JObj "(string, jsval) fmap"

fun truthy :: "jsval \<Rightarrow> bool" where
  "truthy JUndefined = False"
| "truthy JNull = False"
| "truthy (JBool b) = b"
| "truthy (JNum n) = (n \<noteq> 0)"
| "truthy JNaN = False"
| "truthy (JStr s) = (s \<noteq> [])"
| "truthy (JArr xs) = True"
| "truthy (JObj m) = True"

fun nullish :: "jsval \<Rightarrow> bool" where
  "nullish JUndefined = True"
| "nullish JNull = True"
| "nullish v = False"

text \<open>\<^verbatim>\<open>a || b\<close>\<close>

definition js_or :: "jsval \<Rightarrow> jsval \<Rightarrow> jsval" where
  "js_or a b = (if truthy a then a else b)"

text \<open>The decimal name of an array index, as a property key.\<close>

fun index_key :: "nat \<Rightarrow> string" where
  "index_key n =
     (if n < 10 then [''0123456789'' ! n]
      else index_key (n div 10) @ [''0123456789'' ! (n mod 10)])"

text \<open>
  The own enumerable properties of a value, which is what the spread \<^verbatim>\<open>...data\<close> copies:
  the properties of an object, the elements of an array and the characters of a string under
  their indices, and nothing for \<^verbatim>\<open>undefined\<close>, \<^verbatim>\<open>null\<close>, booleans and numbers.
\<close>

fun own_props :: "jsval \<Rightarrow> (string, jsval) fmap" where
  "own_props (JObj m) = m"
| "own_props (JArr xs) = fmap_of_list (zip (map index_key [0..<length xs]) xs)"
| "own_props (JStr s) =
     fmap_of_list (zip (map index_key [0..<length s]) (map (\<lambda>c. JStr [c]) s))"
| "own_props v = fmempty"

text \<open>
  Reading a property \<^verbatim>\<open>v.k\<close>. The handlers read only \<^verbatim>\<open>type\<close>, \<^verbatim>\<open>payload\<close>, \<^verbatim>\<open>title\<close>,
  \<^verbatim>\<open>body\<close>, \<^verbatim>\<open>icon\<close>, \<^verbatim>\<open>badge\<close>, \<^verbatim>\<open>tag\<close>, \<^verbatim>\<open>requireInteraction\<close>, \<^verbatim>\<open>data\<close> and \<^verbatim>\<open>url\<close>,
  none of which is inherited from a prototype, so a property that is not an own property
  reads as \<^verbatim>\<open>undefined\<close>. On \<^verbatim>\<open>undefined\<close> and \<^verbatim>\<open>null\<close> a read throws; every read below is
  either guarded by the source (a truthiness test, an optional chain) or written out with its
  \<open>TypeError\<close> branch.
\<close>

definition get_prop :: "jsval \<Rightarrow> string \<Rightarrow> jsval" where
  "get_prop v k = (case fmlookup (own_props v) k of Some x \<Rightarrow> x | None \<Rightarrow> JUndefined)"

text \<open>\<^verbatim>\<open>v?.k\<close>\<close>

definition opt_chain :: "jsval \<Rightarrow> string \<Rightarrow> jsval" where
  "opt_chain v k = (if nullish v then JUndefined else get_prop v k)"

section \<open>Platform calls and handler results\<close>

datatype js_error = JsError string

text \<open>How a promise returned by the platform settles.\<close>

datatype outcome = Fulfilled | Rejected js_error

record notification_action =
  action :: string
  title :: string
  action_icon :: "string option"

record notification_options =
  body :: jsval
  icon :: jsval
  badge :: jsval
  tag :: jsval
  requireInteraction :: jsval
  data :: jsval
  vibrate :: "nat list"
  actions :: "notification_action list"

datatype log_arg = LStr string | LVal jsval | LErr js_error | LEvent

text \<open>
  The calls a handler makes on the platform. The message of a console call is the source's
  text without the pictograph that starts most of its log lines; the further arguments
  follow as a list. \<open>MatchAll\<close> carries the \<^verbatim>\<open>type\<close> and \<^verbatim>\<open>includeUncontrolled\<close> options
  of the call. A window client and a message port are named by a number.
\<close>

datatype effect =
    ConsoleLog string "log_arg list"
  | ConsoleError string "log_arg list"
  | SkipWaiting
  | ClientsClaim
  | CachesOpen string
  | CacheAddAll string "string list"
  | CachesKeys
  | CachesDelete string
  | ShowNotification jsval notification_options
  | NotificationClose
  | MatchAll string bool
  | Focus nat
  | Navigate nat jsval
  | OpenWindow jsval
  | PostMessage nat jsval

text \<open>
  What one dispatch of an event does. \<open>calls_now\<close> are the calls made while the listener
  runs, in order; a listener runs to completion, so all of them precede the settling of any
  promise it started. \<open>calls_later\<close> are the calls made afterwards from promise callbacks, in
  order. \<open>wait_until\<close> is how the promise handed to \<^verbatim>\<open>event.waitUntil\<close> settles (\<open>None\<close>: the
  listener registered no work), and \<open>thrown\<close> the exception the listener ended with, if any.
\<close>

record handler_result =
  calls_now :: "effect list"
  calls_later :: "effect list"
  wait_until :: "outcome option"
  thrown :: "js_error option"

definition CACHE_NAME :: string where
  "CACHE_NAME = ''adullam-prayer-v1''"

definition NOTIFICATION_ICON :: string where
  "NOTIFICATION_ICON = ''/vite.svg''"

text \<open>The vibration pattern and the two actions that both notification paths pass.\<close>

definition standard_vibrate :: "nat list" where
  "standard_vibrate = [200, 100, 200]"

definition standard_actions :: "notification_action list" where
  "standard_actions =
     [\<lparr>action = ''open'', title = ''Open App'', action_icon = Some ''/vite.svg''\<rparr>,
      \<lparr>action = ''dismiss'', title = ''Dismiss'', action_icon = None\<rparr>]"

section \<open>The push listener\<close>

text \<open>
  \<^verbatim>\<open>event.data\<close> is \<^verbatim>\<open>null\<close> or a message-data object with the two methods the listener
  calls: \<^verbatim>\<open>json()\<close>, which returns the parsed payload or throws (\<open>None\<close>), and \<^verbatim>\<open>text()\<close>.
\<close>

record push_message_data =
  json_result :: "jsval option"
  text_result :: string

text \<open>The initial \<^verbatim>\<open>notificationData\<close>; \<open>now\<close> is the value of \<^verbatim>\<open>Date.now()\<close>.\<close>

definition default_notification :: "int \<Rightarrow> (string, jsval) fmap" where
  "default_notification now = fmap_of_list
     [(''title'', JStr ''Prayer Reminder''),
      (''body'', JStr ''Time for your daily prayer session!''),
      (''icon'', JStr NOTIFICATION_ICON),
      (''badge'', JStr NOTIFICATION_ICON),
      (''tag'', JStr ''prayer-notification''),
      (''requireInteraction'', JBool False),
      (''data'', JObj (fmap_of_list [(''url'', JStr ''/''), (''timestamp'', JNum now)]))]"

definition push_notification_data :: "int \<Rightarrow> push_message_data option \<Rightarrow> jsval" where
  "push_notification_data now event_data =
     (let notificationData = default_notification now in
      case event_data of
        None \<Rightarrow> JObj notificationData
      | Some d \<Rightarrow>
          (case json_result d of
             Some parsed \<Rightarrow> JObj (notificationData ++\<^sub>f own_props parsed)
           | None \<Rightarrow>
               JObj (fmupd ''body''
                 (js_or (JStr (text_result d)) (get_prop (JObj notificationData) ''body''))
                 notificationData)))"

definition push_handler :: "int \<Rightarrow> push_message_data option \<Rightarrow> outcome \<Rightarrow> handler_result" where
  "push_handler now event_data show_res =
     (let notificationData = push_notification_data now event_data in
      \<lparr>calls_now =
         [ConsoleLog ''Push notification received:'' [LEvent],
          ShowNotification (get_prop notificationData ''title'')
            \<lparr>body = get_prop notificationData ''body'',
             icon = get_prop notificationData ''icon'',
             badge = get_prop notificationData ''badge'',
             tag = get_prop notificationData ''tag'',
             requireInteraction = get_prop notificationData ''requireInteraction'',
             data = get_prop notificationData ''data'',
             vibrate = standard_vibrate,
             actions = standard_actions\<rparr>],
       calls_later = [],
       wait_until = Some show_res,
       thrown = None\<rparr>)"

section \<open>The install and activate listeners\<close>

text \<open>
  \<open>open_res\<close> is how \<^verbatim>\<open>caches.open(CACHE_NAME)\<close> settles and \<open>addAll_res\<close> how
  \<^verbatim>\<open>cache.addAll([...])\<close> does. The \<^verbatim>\<open>catch\<close> hangs on the promise of \<^verbatim>\<open>addAll\<close> inside the
  \<^verbatim>\<open>then\<close> callback, so it sees a rejection of \<^verbatim>\<open>addAll\<close> and not one of \<^verbatim>\<open>caches.open\<close>.
\<close>

definition install_handler :: "outcome \<Rightarrow> outcome \<Rightarrow> handler_result" where
  "install_handler open_res addAll_res =
     \<lparr>calls_now =
        [ConsoleLog ''Service Worker installing...'' [],
         SkipWaiting,
         CachesOpen CACHE_NAME],
      calls_later =
        (case open_res of
           Rejected e \<Rightarrow> []
         | Fulfilled \<Rightarrow>
             CacheAddAll CACHE_NAME [''/'', ''/vite.svg''] #
             (case addAll_res of
                Fulfilled \<Rightarrow> []
              | Rejected error \<Rightarrow>
                  [ConsoleLog ''Cache addAll failed (this is okay):'' [LErr error]])),
      wait_until =
        Some (case open_res of Rejected e \<Rightarrow> Rejected e | Fulfilled \<Rightarrow> Fulfilled),
      thrown = None\<rparr>"

text \<open>
  \<open>cacheNames\<close> is what \<^verbatim>\<open>caches.keys()\<close> resolves to and \<open>claim_res\<close> how
  \<^verbatim>\<open>self.clients.claim()\<close> settles. Both calls and the closing log line happen while the
  listener runs; the deletions happen in the callback of \<^verbatim>\<open>caches.keys()\<close>. Listing
  and deleting buckets works on the storage of the browser alone and is taken to fulfil, so
  the promise handed to \<^verbatim>\<open>waitUntil\<close> settles as \<^verbatim>\<open>claim\<close> does.
\<close>

definition activate_handler :: "string list \<Rightarrow> outcome \<Rightarrow> handler_result" where
  "activate_handler cacheNames claim_res =
     \<lparr>calls_now =
        [ConsoleLog ''Service Worker activating...'' [],
         CachesKeys,
         ClientsClaim,
         ConsoleLog ''Service Worker activated and ready for notifications!'' []],
      calls_later =
        concat (map (\<lambda>name. [ConsoleLog ''Deleting old cache:'' [LStr name], CachesDelete name])
          (filter (\<lambda>name. name \<noteq> CACHE_NAME) cacheNames)),
      wait_until = Some claim_res,
      thrown = None\<rparr>"

text \<open>
  The cache storage of the platform, as the list of its bucket names: a fulfilled
  \<^verbatim>\<open>caches.delete\<close> removes a bucket, a fulfilled \<^verbatim>\<open>caches.open\<close> creates the bucket when
  it is missing, and no other call changes the list.
\<close>

fun cache_storage_step :: "string list \<Rightarrow> effect \<Rightarrow> string list" where
  "cache_storage_step buckets (CachesDelete name) = removeAll name buckets"
| "cache_storage_step buckets (CachesOpen name) =
     (if name \<in> set buckets then buckets else buckets @ [name])"
| "cache_storage_step buckets e = buckets"

definition all_calls :: "handler_result \<Rightarrow> effect list" where
  "all_calls r = calls_now r @ calls_later r"

definition storage_after :: "string list \<Rightarrow> handler_result \<Rightarrow> string list" where
  "storage_after buckets r = foldl cache_storage_step buckets (all_calls r)"

section \<open>The notificationclick listener\<close>

record window_client =
  client_id :: nat
  url :: string
  has_focus :: bool

record click_event =
  click_action :: string
  notification_tag :: string
  notification_data :: jsval

text \<open>
  What the platform answers during one click: the origin of the script, whether
  \<^verbatim>\<open>clients.openWindow\<close> exists, the list \<^verbatim>\<open>clients.matchAll\<close> resolves to, and how the
  promises of \<^verbatim>\<open>focus\<close>, \<^verbatim>\<open>navigate\<close> and \<^verbatim>\<open>openWindow\<close> settle.
\<close>

record click_platform =
  location_origin :: string
  has_openWindow :: bool
  clientList :: "window_client list"
  focus_res :: outcome
  navigate_res :: outcome
  openWindow_res :: outcome

text \<open>\<^verbatim>\<open>s.includes(t)\<close>: \<open>t\<close> occurs in \<open>s\<close> as a contiguous piece.\<close>

fun str_includes :: "string \<Rightarrow> string \<Rightarrow> bool" where
  "str_includes [] t = (t = [])"
| "str_includes (c # cs) t = (prefix t (c # cs) \<or> str_includes cs t)"

definition client_matches :: "string \<Rightarrow> window_client \<Rightarrow> bool" where
  "client_matches origin client = (str_includes (url client) origin \<and> has_focus client)"

text \<open>
  The \<^verbatim>\<open>for\<close> loop over the client list. It returns from the callback at the first client
  that passes the test, with the promise of \<^verbatim>\<open>client.focus().then(...)\<close>; \<open>None\<close> means the
  loop ran off the end of the list.
\<close>

fun focus_first_match ::
  "click_platform \<Rightarrow> jsval \<Rightarrow> window_client list \<Rightarrow> (effect list \<times> outcome) option" where
  "focus_first_match P d [] = None"
| "focus_first_match P d (client # rest) =
     (if client_matches (location_origin P) client then
        Some (case focus_res P of
                Rejected e \<Rightarrow> ([Focus (client_id client)], Rejected e)
              | Fulfilled \<Rightarrow>
                  if truthy (opt_chain d ''url'')
                  then ([Focus (client_id client), Navigate (client_id client) (get_prop d ''url'')],
                        navigate_res P)
                  else ([Focus (client_id client)], Fulfilled))
      else focus_first_match P d rest)"

definition notificationclick_handler :: "click_platform \<Rightarrow> click_event \<Rightarrow> handler_result" where
  "notificationclick_handler P event =
     (let first = [ConsoleLog ''Notification clicked:'' [LStr (notification_tag event)],
                   NotificationClose];
          d = notification_data event
      in if click_action event = ''dismiss'' then
           \<lparr>calls_now = first, calls_later = [], wait_until = None, thrown = None\<rparr>
         else
           (case focus_first_match P d (clientList P) of
              Some (calls, res) \<Rightarrow>
                \<lparr>calls_now = first @ [MatchAll ''window'' True], calls_later = calls,
                 wait_until = Some res, thrown = None\<rparr>
            | None \<Rightarrow>
                if has_openWindow P then
                  \<lparr>calls_now = first @ [MatchAll ''window'' True],
                   calls_later = [OpenWindow (js_or (opt_chain d ''url'') (JStr ''/''))],
                   wait_until = Some (openWindow_res P), thrown = None\<rparr>
                else
                  \<lparr>calls_now = first @ [MatchAll ''window'' True], calls_later = [],
                   wait_until = Some Fulfilled, thrown = None\<rparr>))"

section \<open>Background sync\<close>

text \<open>
  \<open>try_res\<close> is how the \<^verbatim>\<open>try\<close> block of the routine ends. In the source the block holds one
  \<^verbatim>\<open>console.log\<close> call and the comments that reserve it for a request to a server. The
  routine has no \<^verbatim>\<open>await\<close>, so it runs within the listener that calls it, and its promise
  fulfils whichever way the block ends.
\<close>

definition checkNotificationsInBackground :: "outcome \<Rightarrow> effect list \<times> outcome" where
  "checkNotificationsInBackground try_res =
     (ConsoleLog ''Checking for notifications in background...'' [] #
      (case try_res of
         Fulfilled \<Rightarrow> []
       | Rejected error \<Rightarrow>
           [ConsoleError ''Error checking notifications in background:'' [LErr error]]),
      Fulfilled)"

definition sync_handler :: "string \<Rightarrow> outcome \<Rightarrow> handler_result" where
  "sync_handler event_tag try_res =
     (let first = [ConsoleLog ''Background sync triggered:'' [LStr event_tag]] in
      if event_tag = ''check-notifications'' then
        (let (calls, promise) = checkNotificationsInBackground try_res in
         \<lparr>calls_now = first @ calls, calls_later = [],
          wait_until = Some promise, thrown = None\<rparr>)
      else \<lparr>calls_now = first, calls_later = [], wait_until = None, thrown = None\<rparr>)"

text \<open>
  The periodicsync listener is added only when \<^verbatim>\<open>'periodicsync' in self.registration\<close>;
  without it an event of that kind reaches no code of the script.
\<close>

definition periodicsync_handler :: "bool \<Rightarrow> string \<Rightarrow> outcome \<Rightarrow> handler_result" where
  "periodicsync_handler periodicsync_supported event_tag try_res =
     (if periodicsync_supported then
        (let first = [ConsoleLog ''Periodic sync triggered:'' [LStr event_tag]] in
         if event_tag = ''check-prayer-notifications'' then
           (let (calls, promise) = checkNotificationsInBackground try_res in
            \<lparr>calls_now = first @ calls, calls_later = [],
             wait_until = Some promise, thrown = None\<rparr>)
         else \<lparr>calls_now = first, calls_later = [], wait_until = None, thrown = None\<rparr>)
      else \<lparr>calls_now = [], calls_later = [], wait_until = None, thrown = None\<rparr>)"

section \<open>The message listener\<close>

text \<open>
  \<^verbatim>\<open>event.data\<close> is any value a page can post; \<^verbatim>\<open>event.ports\<close> is the array of the ports
  sent along, so \<^verbatim>\<open>event.ports && event.ports[0]\<close> holds exactly when it is not empty.
\<close>

record message_event =
  msg_data :: jsval
  msg_ports :: "nat list"

definition has_type :: "jsval \<Rightarrow> string \<Rightarrow> bool" where
  "has_type d name = (truthy d \<and> get_prop d ''type'' = JStr name)"

text \<open>
  The \<^verbatim>\<open>SHOW_NOTIFICATION\<close> branch. Destructuring \<^verbatim>\<open>event.data.payload\<close> throws a
  \<open>TypeError\<close> when the payload is \<^verbatim>\<open>undefined\<close> or \<^verbatim>\<open>null\<close>, which ends the listener. The
  reply is posted right after the call of \<^verbatim>\<open>showNotification\<close>, in the same run.
\<close>

definition show_notification_branch :: "int \<Rightarrow> message_event \<Rightarrow> js_error + effect list" where
  "show_notification_branch now event =
     (let payload = get_prop (msg_data event) ''payload'' in
      if nullish payload then Inl (JsError ''TypeError'')
      else Inr
        (ShowNotification (get_prop payload ''title'')
           \<lparr>body = get_prop payload ''body'',
            icon = js_or (get_prop payload ''icon'') (JStr NOTIFICATION_ICON),
            badge = JStr NOTIFICATION_ICON,
            tag = js_or (get_prop payload ''tag'') (JStr ''prayer-notification''),
            requireInteraction = JBool False,
            data = js_or (get_prop payload ''data'')
                     (JObj (fmap_of_list [(''url'', JStr ''/''), (''timestamp'', JNum now)])),
            vibrate = standard_vibrate,
            actions = standard_actions\<rparr> #
         (case msg_ports event of
            [] \<Rightarrow> []
          | port # others \<Rightarrow>
              [PostMessage port (JObj (fmap_of_list [(''success'', JBool True)]))])))"

definition control_branches :: "message_event \<Rightarrow> effect list" where
  "control_branches event =
     (if has_type (msg_data event) ''SKIP_WAITING'' then [SkipWaiting] else []) @
     (if has_type (msg_data event) ''CLIENTS_CLAIM'' then [ClientsClaim] else [])"

definition message_handler :: "int \<Rightarrow> message_event \<Rightarrow> outcome \<Rightarrow> handler_result" where
  "message_handler now event show_res =
     (let first = [ConsoleLog ''Service Worker received message:'' [LVal (msg_data event)]] in
      if has_type (msg_data event) ''SHOW_NOTIFICATION'' then
        (case show_notification_branch now event of
           Inl e \<Rightarrow>
             \<lparr>calls_now = first, calls_later = [], wait_until = None, thrown = Some e\<rparr>
         | Inr calls \<Rightarrow>
             \<lparr>calls_now = first @ calls @ control_branches event, calls_later = [],
              wait_until = Some show_res, thrown = None\<rparr>)
      else
        \<lparr>calls_now = first @ control_branches event, calls_later = [],
         wait_until = None, thrown = None\<rparr>)"

section \<open>What a result shows\<close>

text \<open>
  The value a displayed field has when the defaults are overridden field by field by a
  payload: the payload's own property of that name if it has one, the default otherwise.
\<close>

definition overridden :: "jsval \<Rightarrow> string \<Rightarrow> jsval \<Rightarrow> jsval" where
  "overridden payload k dflt =
     (case fmlookup (own_props payload) k of Some x \<Rightarrow> x | None \<Rightarrow> dflt)"

definition default_data :: "int \<Rightarrow> jsval" where
  "default_data now = JObj (fmap_of_list [(''url'', JStr ''/''), (''timestamp'', JNum now)])"

definition success_reply :: jsval where
  "success_reply = JObj (fmap_of_list [(''success'', JBool True)])"

text \<open>The notifications shown and the replies posted by a list of calls, in order.\<close>

fun shown :: "effect list \<Rightarrow> (jsval \<times> notification_options) list" where
  "shown [] = []"
| "shown (ShowNotification t opts # es) = (t, opts) # shown es"
| "shown (e # es) = shown es"

fun replies :: "effect list \<Rightarrow> (nat \<times> jsval) list" where
  "replies [] = []"
| "replies (PostMessage port m # es) = (port, m) # replies es"
| "replies (e # es) = replies es"

fun focus_or_open :: "effect \<Rightarrow> bool" where
  "focus_or_open (Focus c) = True"
| "focus_or_open (OpenWindow u) = True"
| "focus_or_open e = False"

text \<open>
  The target URL a clicked notification carries, \<^verbatim>\<open>event.notification.data?.url\<close>; the
  notification carries one when this value is truthy.
\<close>

definition target_url :: "click_event \<Rightarrow> jsval" where
  "target_url event = opt_chain (notification_data event) ''url''"

text \<open>The background routine ran: its first line was logged.\<close>

definition routine_invoked :: "handler_result \<Rightarrow> bool" where
  "routine_invoked r =
     (ConsoleLog ''Checking for notifications in background...'' [] \<in> set (all_calls r))"

section \<open>Example inputs\<close>

text \<open>One open page of the application, and a click on a notification for a session.\<close>

definition app_platform :: click_platform where
  "app_platform =
     \<lparr>location_origin = ''https://app.example'', has_openWindow = True,
      clientList = [\<lparr>client_id = 1, url = ''https://app.example/home'', has_focus = True\<rparr>],
      focus_res = Fulfilled, navigate_res = Fulfilled, openWindow_res = Fulfilled\<rparr>"

definition session_click :: click_event where
  "session_click =
     \<lparr>click_action = [], notification_tag = ''prayer-notification'',
      notification_data = JObj (fmap_of_list [(''url'', JStr ''/sessions/5'')])\<rparr>"

text \<open>The message \<^verbatim>\<open>{type: 'SHOW_NOTIFICATION', payload}\<close> with the ports sent along.\<close>

definition show_message :: "jsval \<Rightarrow> nat list \<Rightarrow> message_event" where
  "show_message payload ports_sent =
     \<lparr>msg_data = JObj (fmap_of_list
        [(''type'', JStr ''SHOW_NOTIFICATION''), (''payload'', payload)]),
      msg_ports = ports_sent\<rparr>"

definition title_and_body :: jsval where
  "title_and_body = JObj (fmap_of_list [(''title'', JStr ''T''), (''body'', JStr ''B'')])"

section \<open>Properties of the push listener\<close>

lemma get_prop_merged:
  "get_prop (JObj (m ++\<^sub>f own_props p)) k =
     overridden p k (case fmlookup m k of Some x \<Rightarrow> x | None \<Rightarrow> JUndefined)"
  by (simp add: get_prop_def overridden_def fmlookup_dom_iff split: option.splits)

text \<open>
  C1. A push whose payload parses: one notification is shown, and each of its fields title,
  body, icon, badge, tag, requireInteraction and data is the payload's own property of that
  name when the payload has one and the documented default otherwise; the vibration pattern
  and the actions are the fixed ones.
\<close>

theorem push_parsed_payload_overrides_defaults:
  "calls_now (push_handler now (Some \<lparr>json_result = Some p, text_result = t\<rparr>) show_res) =
     [ConsoleLog ''Push notification received:'' [LEvent],
      ShowNotification (overridden p ''title'' (JStr ''Prayer Reminder''))
        \<lparr>body = overridden p ''body'' (JStr ''Time for your daily prayer session!''),
         icon = overridden p ''icon'' (JStr ''/vite.svg''),
         badge = overridden p ''badge'' (JStr ''/vite.svg''),
         tag = overridden p ''tag'' (JStr ''prayer-notification''),
         requireInteraction = overridden p ''requireInteraction'' (JBool False),
         data = overridden p ''data'' (default_data now),
         vibrate = [200, 100, 200],
         actions = standard_actions\<rparr>]"
  by (simp add: push_handler_def push_notification_data_def get_prop_merged
      default_notification_def default_data_def NOTIFICATION_ICON_def standard_vibrate_def)

text \<open>
  The payload \<^verbatim>\<open>{"title": "T", "data": null}\<close>: title and data are the payload's, every
  other field is the default.
\<close>

theorem push_parsed_payload_overrides_defaults_witness:
  "calls_now (push_handler 1700000000000
       (Some \<lparr>json_result = Some (JObj (fmap_of_list [(''title'', JStr ''T''), (''data'', JNull)])),
              text_result = ''{\"title\": \"T\", \"data\": null}''\<rparr>) Fulfilled) =
     [ConsoleLog ''Push notification received:'' [LEvent],
      ShowNotification (JStr ''T'')
        \<lparr>body = JStr ''Time for your daily prayer session!'',
         icon = JStr ''/vite.svg'',
         badge = JStr ''/vite.svg'',
         tag = JStr ''prayer-notification'',
         requireInteraction = JBool False,
         data = JNull,
         vibrate = [200, 100, 200],
         actions = standard_actions\<rparr>]"
  using push_parsed_payload_overrides_defaults [of 1700000000000
      "JObj (fmap_of_list [(''title'', JStr ''T''), (''data'', JNull)])"
      "''{\"title\": \"T\", \"data\": null}''" Fulfilled]
  by (simp add: overridden_def)

text \<open>A parsed payload without own properties (a number, a boolean, \<^verbatim>\<open>null\<close>) changes nothing.\<close>

lemma overridden_without_properties:
  "own_props p = fmempty \<Longrightarrow> overridden p k dflt = dflt"
  by (simp add: overridden_def)

text \<open>
  C6. A push without payload, or with a payload that does not parse: one notification is
  shown; its body is the raw text of the payload, or the default body when that text is empty
  or there is no payload; every other field is the default.
\<close>

theorem push_absent_or_unparsable_payload:
  "calls_now (push_handler now None show_res) =
     [ConsoleLog ''Push notification received:'' [LEvent],
      ShowNotification (JStr ''Prayer Reminder'')
        \<lparr>body = JStr ''Time for your daily prayer session!'',
         icon = JStr ''/vite.svg'',
         badge = JStr ''/vite.svg'',
         tag = JStr ''prayer-notification'',
         requireInteraction = JBool False,
         data = default_data now,
         vibrate = [200, 100, 200],
         actions = standard_actions\<rparr>] \<and>
   calls_now (push_handler now (Some \<lparr>json_result = None, text_result = t\<rparr>) show_res) =
     [ConsoleLog ''Push notification received:'' [LEvent],
      ShowNotification (JStr ''Prayer Reminder'')
        \<lparr>body = (if t = [] then JStr ''Time for your daily prayer session!'' else JStr t),
         icon = JStr ''/vite.svg'',
         badge = JStr ''/vite.svg'',
         tag = JStr ''prayer-notification'',
         requireInteraction = JBool False,
         data = default_data now,
         vibrate = [200, 100, 200],
         actions = standard_actions\<rparr>]"
  by (simp add: push_handler_def push_notification_data_def get_prop_def js_or_def
      default_notification_def default_data_def NOTIFICATION_ICON_def standard_vibrate_def)

text \<open>The raw text \<^verbatim>\<open>Evening prayer\<close> becomes the body.\<close>

theorem push_absent_or_unparsable_payload_witness:
  "shown (calls_now (push_handler 0
       (Some \<lparr>json_result = None, text_result = ''Evening prayer''\<rparr>) Fulfilled)) =
     [(JStr ''Prayer Reminder'',
        \<lparr>body = JStr ''Evening prayer'',
         icon = JStr ''/vite.svg'',
         badge = JStr ''/vite.svg'',
         tag = JStr ''prayer-notification'',
         requireInteraction = JBool False,
         data = default_data 0,
         vibrate = [200, 100, 200],
         actions = standard_actions\<rparr>)]"
  using push_absent_or_unparsable_payload [of 0 Fulfilled "''Evening prayer''"]
  by simp

section \<open>Properties of the install and activate listeners\<close>

text \<open>
  The \<^verbatim>\<open>catch\<close> does not cover \<^verbatim>\<open>caches.open\<close>. Here opening the bucket rejects: nothing
  is added, nothing is logged, and the rejection reaches \<^verbatim>\<open>waitUntil\<close>, so the installation
  does not complete.
\<close>

theorem install_open_rejection_propagates_counterexample:
  "calls_later (install_handler (Rejected (JsError ''UnknownError: Unexpected internal error'')) Fulfilled) = [] \<and>
   wait_until (install_handler (Rejected (JsError ''UnknownError: Unexpected internal error'')) Fulfilled) =
     Some (Rejected (JsError ''UnknownError: Unexpected internal error'')) \<and>
   Some (Rejected (JsError ''UnknownError: Unexpected internal error'')) \<noteq> Some Fulfilled"
  by (simp add: install_handler_def)

text \<open>
  C9, as the listener has it. On install \<^verbatim>\<open>skipWaiting\<close> is called first, before any cache
  call and whatever the cache calls do, and the listener throws nothing. When
  \<^verbatim>\<open>caches.open\<close> fulfils, \<^verbatim>\<open>/\<close> and \<^verbatim>\<open>/vite.svg\<close> are added; a rejection of
  \<^verbatim>\<open>cache.addAll\<close> is caught and logged, and the promise the installation waits for fulfils
  however \<^verbatim>\<open>addAll\<close> settles. When \<^verbatim>\<open>caches.open\<close> itself rejects, nothing is added or
  logged and the promise rejects with the same error.
\<close>

theorem install_skips_waiting_and_swallows_addAll_failure:
  "calls_now (install_handler open_res addAll_res) =
     [ConsoleLog ''Service Worker installing...'' [], SkipWaiting,
      CachesOpen ''adullam-prayer-v1''] \<and>
   thrown (install_handler open_res addAll_res) = None \<and>
   calls_later (install_handler Fulfilled Fulfilled) =
     [CacheAddAll ''adullam-prayer-v1'' [''/'', ''/vite.svg'']] \<and>
   calls_later (install_handler Fulfilled (Rejected e)) =
     [CacheAddAll ''adullam-prayer-v1'' [''/'', ''/vite.svg''],
      ConsoleLog ''Cache addAll failed (this is okay):'' [LErr e]] \<and>
   wait_until (install_handler Fulfilled addAll_res) = Some Fulfilled \<and>
   calls_later (install_handler (Rejected e) addAll_res) = [] \<and>
   wait_until (install_handler (Rejected e) addAll_res) = Some (Rejected e)"
  by (simp add: install_handler_def CACHE_NAME_def)

theorem install_skips_waiting_and_swallows_addAll_failure_witness:
  "calls_later (install_handler Fulfilled (Rejected (JsError ''TypeError: Failed to fetch''))) =
     [CacheAddAll ''adullam-prayer-v1'' [''/'', ''/vite.svg''],
      ConsoleLog ''Cache addAll failed (this is okay):''
        [LErr (JsError ''TypeError: Failed to fetch'')]] \<and>
   wait_until (install_handler Fulfilled (Rejected (JsError ''TypeError: Failed to fetch''))) =
     Some Fulfilled \<and>
   wait_until (install_handler (Rejected (JsError ''TypeError: Failed to fetch'')) Fulfilled) =
     Some (Rejected (JsError ''TypeError: Failed to fetch''))"
  using install_skips_waiting_and_swallows_addAll_failure
    [of Fulfilled "Rejected (JsError ''TypeError: Failed to fetch'')"
      "JsError ''TypeError: Failed to fetch''"]
    install_skips_waiting_and_swallows_addAll_failure
    [of Fulfilled Fulfilled "JsError ''TypeError: Failed to fetch''"]
  by simp

lemma foldl_delete_calls:
  "foldl cache_storage_step st
     (concat (map (\<lambda>name. [ConsoleLog msg [LStr name], CachesDelete name]) xs)) =
   filter (\<lambda>n. n \<notin> set xs) st"
proof (induction xs arbitrary: st)
  case Nil
  then show ?case by simp
next
  case (Cons x xs)
  have "filter (\<lambda>n. n \<notin> set xs) (removeAll x st) = filter (\<lambda>n. n \<notin> set (x # xs)) st"
    by (induction st) auto
  with Cons show ?case by simp
qed

text \<open>
  C5. On activation, with \<open>buckets\<close> the existing cache buckets: the deletion of a bucket is
  requested exactly when the bucket exists and its name is not \<^verbatim>\<open>adullam-prayer-v1\<close>, and
  afterwards the storage holds the current bucket, if it existed, and nothing else.
\<close>

theorem activate_deletes_exactly_stale_buckets:
  "(CachesDelete name \<in> set (all_calls (activate_handler buckets claim_res))) =
     (name \<in> set buckets \<and> name \<noteq> ''adullam-prayer-v1'') \<and>
   storage_after buckets (activate_handler buckets claim_res) =
     filter (\<lambda>n. n = ''adullam-prayer-v1'') buckets"
proof -
  have requested: "(CachesDelete name \<in> set (all_calls (activate_handler buckets claim_res))) =
     (name \<in> set buckets \<and> name \<noteq> ''adullam-prayer-v1'')"
    by (auto simp: all_calls_def activate_handler_def CACHE_NAME_def)
  have kept: "storage_after buckets (activate_handler buckets claim_res) =
     filter (\<lambda>n. n = ''adullam-prayer-v1'') buckets"
    by (simp add: storage_after_def all_calls_def activate_handler_def CACHE_NAME_def
        foldl_delete_calls cong: filter_cong)
  from requested kept show ?thesis by simp
qed

text \<open>With the buckets \<^verbatim>\<open>adullam-prayer-v0\<close> and \<^verbatim>\<open>adullam-prayer-v1\<close> only the first goes.\<close>

theorem activate_deletes_exactly_stale_buckets_witness:
  "CachesDelete ''adullam-prayer-v0'' \<in> set (all_calls
      (activate_handler [''adullam-prayer-v0'', ''adullam-prayer-v1''] Fulfilled)) \<and>
   CachesDelete ''adullam-prayer-v1'' \<notin> set (all_calls
      (activate_handler [''adullam-prayer-v0'', ''adullam-prayer-v1''] Fulfilled)) \<and>
   storage_after [''adullam-prayer-v0'', ''adullam-prayer-v1'']
      (activate_handler [''adullam-prayer-v0'', ''adullam-prayer-v1''] Fulfilled) =
     [''adullam-prayer-v1'']"
  using activate_deletes_exactly_stale_buckets
      [of "''adullam-prayer-v0''" "[''adullam-prayer-v0'', ''adullam-prayer-v1'']" Fulfilled]
    activate_deletes_exactly_stale_buckets
      [of "''adullam-prayer-v1''" "[''adullam-prayer-v0'', ''adullam-prayer-v1'']" Fulfilled]
  by simp

section \<open>Properties of the notificationclick listener\<close>

text \<open>The test of the loop is containment of the origin in the URL of the client.\<close>

lemma str_includes_sublist: "str_includes s t = sublist t s"
  by (induction s) (auto simp: sublist_Cons_right)

lemma target_url_read:
  "truthy (opt_chain d ''url'') \<Longrightarrow> get_prop d ''url'' = opt_chain d ''url''"
  by (auto simp: opt_chain_def split: if_splits)

lemma focus_first_match_none:
  "(focus_first_match P d cl = None) = (\<forall>c\<in>set cl. \<not> client_matches (location_origin P) c)"
  by (induction cl) auto

lemma focus_first_match_some:
  "\<exists>c\<in>set cl. client_matches (location_origin P) c \<Longrightarrow>
   \<exists>i<length cl. client_matches (location_origin P) (cl ! i) \<and>
     (\<forall>j<i. \<not> client_matches (location_origin P) (cl ! j)) \<and>
     focus_first_match P d cl =
       Some (Focus (client_id (cl ! i)) #
               (if focus_res P = Fulfilled \<and> truthy (opt_chain d ''url'')
                then [Navigate (client_id (cl ! i)) (opt_chain d ''url'')] else []),
             (case focus_res P of
                Rejected e \<Rightarrow> Rejected e
              | Fulfilled \<Rightarrow> if truthy (opt_chain d ''url'') then navigate_res P else Fulfilled))"
proof (induction cl)
  case Nil
  then show ?case by simp
next
  case (Cons a cl)
  show ?case
  proof (cases "client_matches (location_origin P) a")
    case True
    then have "focus_first_match P d (a # cl) =
       Some (Focus (client_id a) #
               (if focus_res P = Fulfilled \<and> truthy (opt_chain d ''url'')
                then [Navigate (client_id a) (opt_chain d ''url'')] else []),
             (case focus_res P of
                Rejected e \<Rightarrow> Rejected e
              | Fulfilled \<Rightarrow> if truthy (opt_chain d ''url'') then navigate_res P else Fulfilled))"
      by (simp add: target_url_read split: outcome.splits)
    with True show ?thesis by (intro exI [of _ 0]) simp
  next
    case False
    with Cons.prems have "\<exists>c\<in>set cl. client_matches (location_origin P) c" by auto
    from Cons.IH [OF this] obtain i where i: "i < length cl"
      "client_matches (location_origin P) (cl ! i)"
      "\<forall>j<i. \<not> client_matches (location_origin P) (cl ! j)"
      "focus_first_match P d cl =
       Some (Focus (client_id (cl ! i)) #
               (if focus_res P = Fulfilled \<and> truthy (opt_chain d ''url'')
                then [Navigate (client_id (cl ! i)) (opt_chain d ''url'')] else []),
             (case focus_res P of
                Rejected e \<Rightarrow> Rejected e
              | Fulfilled \<Rightarrow> if truthy (opt_chain d ''url'') then navigate_res P else Fulfilled))"
      by blast
    have "\<forall>j<Suc i. \<not> client_matches (location_origin P) ((a # cl) ! j)"
      using False i(3) by (auto simp: less_Suc_eq_0_disj)
    with False i show ?thesis by (intro exI [of _ "Suc i"]) simp
  qed
qed

text \<open>
  C7. A click on the action \<^verbatim>\<open>dismiss\<close>: besides the log line the listener makes one call,
  the closing of the notification; it focuses, navigates and opens nothing, and registers no
  work.
\<close>

theorem click_dismiss_only_closes:
  "click_action event = ''dismiss'' \<Longrightarrow>
   notificationclick_handler P event =
     \<lparr>calls_now = [ConsoleLog ''Notification clicked:'' [LStr (notification_tag event)],
                  NotificationClose],
      calls_later = [], wait_until = None, thrown = None\<rparr>"
  by (simp add: notificationclick_handler_def)

theorem click_dismiss_only_closes_witness:
  "click_action (session_click\<lparr>click_action := ''dismiss''\<rparr>) = ''dismiss'' \<and>
   all_calls (notificationclick_handler app_platform
      (session_click\<lparr>click_action := ''dismiss''\<rparr>)) =
     [ConsoleLog ''Notification clicked:'' [LStr ''prayer-notification''], NotificationClose]"
  using click_dismiss_only_closes [of "session_click\<lparr>click_action := ''dismiss''\<rparr>" app_platform]
  by (simp add: session_click_def all_calls_def)

text \<open>
  C4. A click on anything but \<^verbatim>\<open>dismiss\<close>, when some enumerated window client passes the
  test of the loop (its URL contains the origin of the script; it has \<^verbatim>\<open>focus\<close>, as every
  window client has): the clients are enumerated with uncontrolled ones included, the first
  client in the order of the list that passes the test is focused, once that has succeeded it
  is navigated to the target URL when the notification carries one, no window is opened, and
  the focus call is the only focus or open call of the click.
\<close>

theorem click_focuses_first_matching_client:
  assumes "click_action event \<noteq> ''dismiss''"
    and "\<exists>c\<in>set (clientList P). client_matches (location_origin P) c"
  shows "\<exists>i<length (clientList P).
     client_matches (location_origin P) (clientList P ! i) \<and>
     (\<forall>j<i. \<not> client_matches (location_origin P) (clientList P ! j)) \<and>
     calls_now (notificationclick_handler P event) =
       [ConsoleLog ''Notification clicked:'' [LStr (notification_tag event)],
        NotificationClose, MatchAll ''window'' True] \<and>
     calls_later (notificationclick_handler P event) =
       Focus (client_id (clientList P ! i)) #
       (if focus_res P = Fulfilled \<and> truthy (target_url event)
        then [Navigate (client_id (clientList P ! i)) (target_url event)] else []) \<and>
     length (filter focus_or_open (all_calls (notificationclick_handler P event))) = 1"
proof -
  from focus_first_match_some [OF assms(2), of "notification_data event"]
  obtain i where i: "i < length (clientList P)"
    "client_matches (location_origin P) (clientList P ! i)"
    "\<forall>j<i. \<not> client_matches (location_origin P) (clientList P ! j)"
    "focus_first_match P (notification_data event) (clientList P) =
       Some (Focus (client_id (clientList P ! i)) #
               (if focus_res P = Fulfilled \<and> truthy (target_url event)
                then [Navigate (client_id (clientList P ! i)) (target_url event)] else []),
             (case focus_res P of
                Rejected e \<Rightarrow> Rejected e
              | Fulfilled \<Rightarrow>
                  if truthy (target_url event) then navigate_res P else Fulfilled))"
    unfolding target_url_def by blast
  from assms(1) i(4) have
    "calls_now (notificationclick_handler P event) =
       [ConsoleLog ''Notification clicked:'' [LStr (notification_tag event)],
        NotificationClose, MatchAll ''window'' True]"
    "calls_later (notificationclick_handler P event) =
       Focus (client_id (clientList P ! i)) #
       (if focus_res P = Fulfilled \<and> truthy (target_url event)
        then [Navigate (client_id (clientList P ! i)) (target_url event)] else [])"
    by (simp_all add: notificationclick_handler_def)
  moreover from this have
    "length (filter focus_or_open (all_calls (notificationclick_handler P event))) = 1"
    by (simp add: all_calls_def)
  ultimately show ?thesis using i(1-3) by blast
qed

text \<open>
  One open page of the application and the target URL \<^verbatim>\<open>/sessions/5\<close>: the page is focused
  and navigated there.
\<close>

theorem click_focuses_first_matching_client_witness:
  "click_action session_click \<noteq> ''dismiss'' \<and>
   (\<exists>c\<in>set (clientList app_platform). client_matches (location_origin app_platform) c) \<and>
   calls_later (notificationclick_handler app_platform session_click) =
     [Focus 1, Navigate 1 (JStr ''/sessions/5'')]"
proof -
  have a: "click_action session_click \<noteq> ''dismiss''"
    by (simp add: session_click_def)
  have b: "\<exists>c\<in>set (clientList app_platform). client_matches (location_origin app_platform) c"
    by (simp add: app_platform_def client_matches_def)
  from click_focuses_first_matching_client [OF a b] have
    "calls_later (notificationclick_handler app_platform session_click) =
     [Focus 1, Navigate 1 (JStr ''/sessions/5'')]"
    by (simp add: app_platform_def session_click_def target_url_def opt_chain_def get_prop_def)
  with a b show ?thesis by blast
qed

text \<open>
  C8. A click on anything but \<^verbatim>\<open>dismiss\<close>, when no enumerated client passes the test of the
  loop, on a platform that has \<^verbatim>\<open>clients.openWindow\<close> (the listener asks for it before the
  call): one window is opened, at the target URL of the notification when it carries one and
  at \<^verbatim>\<open>/\<close> otherwise, and this is the only focus or open call of the click.
\<close>

theorem click_opens_window_when_no_match:
  assumes "click_action event \<noteq> ''dismiss''"
    and "\<forall>c\<in>set (clientList P). \<not> client_matches (location_origin P) c"
    and "has_openWindow P"
  shows "calls_now (notificationclick_handler P event) =
       [ConsoleLog ''Notification clicked:'' [LStr (notification_tag event)],
        NotificationClose, MatchAll ''window'' True] \<and>
     calls_later (notificationclick_handler P event) =
       [OpenWindow (if truthy (target_url event) then target_url event else JStr ''/'')] \<and>
     length (filter focus_or_open (all_calls (notificationclick_handler P event))) = 1"
proof -
  from assms(2) have "focus_first_match P (notification_data event) (clientList P) = None"
    by (simp add: focus_first_match_none)
  with assms(1,3) show ?thesis
    by (simp add: notificationclick_handler_def all_calls_def js_or_def target_url_def)
qed

text \<open>No page open and the target URL \<^verbatim>\<open>/sessions/5\<close>: one window is opened there.\<close>

theorem click_opens_window_when_no_match_witness:
  "click_action session_click \<noteq> ''dismiss'' \<and>
   clientList (app_platform\<lparr>clientList := []\<rparr>) = [] \<and>
   has_openWindow (app_platform\<lparr>clientList := []\<rparr>) \<and>
   calls_later (notificationclick_handler (app_platform\<lparr>clientList := []\<rparr>) session_click) =
     [OpenWindow (JStr ''/sessions/5'')]"
proof -
  have a: "click_action session_click \<noteq> ''dismiss''"
    by (simp add: session_click_def)
  have b: "\<forall>c\<in>set (clientList (app_platform\<lparr>clientList := []\<rparr>)).
      \<not> client_matches (location_origin (app_platform\<lparr>clientList := []\<rparr>)) c"
    by simp
  have c: "has_openWindow (app_platform\<lparr>clientList := []\<rparr>)"
    by (simp add: app_platform_def)
  from click_opens_window_when_no_match [OF a b c] have
    "calls_later (notificationclick_handler (app_platform\<lparr>clientList := []\<rparr>) session_click) =
     [OpenWindow (JStr ''/sessions/5'')]"
    by (simp add: session_click_def target_url_def opt_chain_def get_prop_def)
  with a c show ?thesis by simp
qed

text \<open>Without \<^verbatim>\<open>clients.openWindow\<close> the callback ends after the loop and calls nothing.\<close>

lemma click_without_openWindow:
  assumes "click_action event \<noteq> ''dismiss''"
    and "\<forall>c\<in>set (clientList P). \<not> client_matches (location_origin P) c"
    and "\<not> has_openWindow P"
  shows "calls_later (notificationclick_handler P event) = []"
proof -
  from assms(2) have "focus_first_match P (notification_data event) (clientList P) = None"
    by (simp add: focus_first_match_none)
  with assms(1,3) show ?thesis
    by (simp add: notificationclick_handler_def)
qed

section \<open>Properties of background sync\<close>

text \<open>
  C10. A sync event with a tag other than \<^verbatim>\<open>check-notifications\<close> only logs its tag, and a
  periodicsync event with a tag other than \<^verbatim>\<open>check-prayer-notifications\<close> does at most
  that: neither registers work nor runs the background routine. The routine runs exactly
  for the tag of its listener (for periodicsync, when the listener was added at all). Its
  promise fulfils however its \<^verbatim>\<open>try\<close> block ends, an exception of the block is logged, and
  no listener throws.
\<close>

theorem background_check_only_for_its_tags:
  "(event_tag \<noteq> ''check-notifications'' \<longrightarrow>
      sync_handler event_tag try_res =
        \<lparr>calls_now = [ConsoleLog ''Background sync triggered:'' [LStr event_tag]],
         calls_later = [], wait_until = None, thrown = None\<rparr>) \<and>
   (event_tag \<noteq> ''check-prayer-notifications'' \<longrightarrow>
      periodicsync_handler supported event_tag try_res =
        \<lparr>calls_now = (if supported
                       then [ConsoleLog ''Periodic sync triggered:'' [LStr event_tag]] else []),
         calls_later = [], wait_until = None, thrown = None\<rparr>) \<and>
   routine_invoked (sync_handler event_tag try_res) = (event_tag = ''check-notifications'') \<and>
   routine_invoked (periodicsync_handler supported event_tag try_res) =
     (supported \<and> event_tag = ''check-prayer-notifications'') \<and>
   snd (checkNotificationsInBackground try_res) = Fulfilled \<and>
   fst (checkNotificationsInBackground (Rejected e)) =
     [ConsoleLog ''Checking for notifications in background...'' [],
      ConsoleError ''Error checking notifications in background:'' [LErr e]] \<and>
   thrown (sync_handler event_tag try_res) = None \<and>
   thrown (periodicsync_handler supported event_tag try_res) = None \<and>
   wait_until (sync_handler ''check-notifications'' try_res) = Some Fulfilled \<and>
   wait_until (periodicsync_handler True ''check-prayer-notifications'' try_res) =
     Some Fulfilled"
  by (simp add: sync_handler_def periodicsync_handler_def checkNotificationsInBackground_def
      routine_invoked_def all_calls_def Let_def split: outcome.splits)

theorem background_check_only_for_its_tags_witness:
  "''sync-outbox'' \<noteq> ''check-notifications'' \<and>
   ''sync-outbox'' \<noteq> ''check-prayer-notifications'' \<and>
   sync_handler ''sync-outbox'' Fulfilled =
     \<lparr>calls_now = [ConsoleLog ''Background sync triggered:'' [LStr ''sync-outbox'']],
      calls_later = [], wait_until = None, thrown = None\<rparr> \<and>
   periodicsync_handler True ''sync-outbox'' Fulfilled =
     \<lparr>calls_now = [ConsoleLog ''Periodic sync triggered:'' [LStr ''sync-outbox'']],
      calls_later = [], wait_until = None, thrown = None\<rparr> \<and>
   \<not> routine_invoked (sync_handler ''sync-outbox'' Fulfilled) \<and>
   \<not> routine_invoked (periodicsync_handler True ''sync-outbox'' Fulfilled)"
  using background_check_only_for_its_tags [of "''sync-outbox''" Fulfilled True]
  by (simp add: routine_invoked_def all_calls_def)

section \<open>Properties of the message listener\<close>

text \<open>
  What the listener does with a \<^verbatim>\<open>SHOW_NOTIFICATION\<close> message that has a payload. The two
  later tests of the message type fail, since the type is \<^verbatim>\<open>SHOW_NOTIFICATION\<close>.
\<close>

lemma message_handler_show:
  assumes "has_type (msg_data event) ''SHOW_NOTIFICATION''"
    and "\<not> nullish (get_prop (msg_data event) ''payload'')"
  shows "message_handler now event show_res =
     \<lparr>calls_now =
        ConsoleLog ''Service Worker received message:'' [LVal (msg_data event)] #
        ShowNotification (get_prop (get_prop (msg_data event) ''payload'') ''title'')
          \<lparr>body = get_prop (get_prop (msg_data event) ''payload'') ''body'',
           icon = js_or (get_prop (get_prop (msg_data event) ''payload'') ''icon'')
                    (JStr ''/vite.svg''),
           badge = JStr ''/vite.svg'',
           tag = js_or (get_prop (get_prop (msg_data event) ''payload'') ''tag'')
                   (JStr ''prayer-notification''),
           requireInteraction = JBool False,
           data = js_or (get_prop (get_prop (msg_data event) ''payload'') ''data'')
                    (default_data now),
           vibrate = [200, 100, 200],
           actions = standard_actions\<rparr> #
        (case msg_ports event of
           [] \<Rightarrow> []
         | port # others \<Rightarrow> [PostMessage port success_reply]),
      calls_later = [], wait_until = Some show_res, thrown = None\<rparr>"
proof -
  from assms(1) have "control_branches event = []"
    by (simp add: control_branches_def has_type_def)
  with assms show ?thesis
    by (simp add: message_handler_def show_notification_branch_def Let_def default_data_def
        success_reply_def NOTIFICATION_ICON_def standard_vibrate_def split: list.splits)
qed

text \<open>
  A \<^verbatim>\<open>SHOW_NOTIFICATION\<close> message without payload: the destructuring throws, nothing is
  shown and nothing is posted back.
\<close>

lemma message_handler_without_payload:
  assumes "has_type (msg_data event) ''SHOW_NOTIFICATION''"
    and "nullish (get_prop (msg_data event) ''payload'')"
  shows "message_handler now event show_res =
     \<lparr>calls_now = [ConsoleLog ''Service Worker received message:'' [LVal (msg_data event)]],
      calls_later = [], wait_until = None, thrown = Some (JsError ''TypeError'')\<rparr>"
  using assms by (simp add: message_handler_def show_notification_branch_def)

text \<open>
  The message path does not fill in a title or a body. With the payload \<^verbatim>\<open>{}\<close> the
  notification is shown with title and body \<^verbatim>\<open>undefined\<close>, not with the default title
  \<^verbatim>\<open>Prayer Reminder\<close> and the default body.
\<close>

theorem message_missing_title_and_body_counterexample:
  "shown (all_calls (message_handler 0 (show_message (JObj fmempty) []) Fulfilled)) =
     [(JUndefined,
       \<lparr>body = JUndefined, icon = JStr ''/vite.svg'', badge = JStr ''/vite.svg'',
        tag = JStr ''prayer-notification'', requireInteraction = JBool False,
        data = default_data 0, vibrate = [200, 100, 200], actions = standard_actions\<rparr>)] \<and>
   JUndefined \<noteq> JStr ''Prayer Reminder'' \<and>
   JUndefined \<noteq> JStr ''Time for your daily prayer session!''"
  by (simp add: message_handler_def show_notification_branch_def show_message_def has_type_def
      get_prop_def js_or_def all_calls_def control_branches_def default_data_def
      NOTIFICATION_ICON_def standard_vibrate_def)

text \<open>
  C2, as the listener has it. A \<^verbatim>\<open>SHOW_NOTIFICATION\<close> message whose payload is not
  \<^verbatim>\<open>undefined\<close> or \<^verbatim>\<open>null\<close> shows exactly one notification. Title and body are the
  payload's as they are (\<^verbatim>\<open>undefined\<close> when missing); icon, tag and data are the payload's
  when truthy and the defaults \<^verbatim>\<open>/vite.svg\<close>, \<^verbatim>\<open>prayer-notification\<close> and
  \<^verbatim>\<open>{url: '/', timestamp}\<close> otherwise; badge is always \<^verbatim>\<open>/vite.svg\<close> and requireInteraction
  always false.
\<close>

theorem message_show_notification_fields:
  assumes "has_type (msg_data event) ''SHOW_NOTIFICATION''"
    and "\<not> nullish (get_prop (msg_data event) ''payload'')"
  shows "shown (all_calls (message_handler now event show_res)) =
     [(get_prop (get_prop (msg_data event) ''payload'') ''title'',
       \<lparr>body = get_prop (get_prop (msg_data event) ''payload'') ''body'',
        icon = (if truthy (get_prop (get_prop (msg_data event) ''payload'') ''icon'')
                then get_prop (get_prop (msg_data event) ''payload'') ''icon''
                else JStr ''/vite.svg''),
        badge = JStr ''/vite.svg'',
        tag = (if truthy (get_prop (get_prop (msg_data event) ''payload'') ''tag'')
               then get_prop (get_prop (msg_data event) ''payload'') ''tag''
               else JStr ''prayer-notification''),
        requireInteraction = JBool False,
        data = (if truthy (get_prop (get_prop (msg_data event) ''payload'') ''data'')
                then get_prop (get_prop (msg_data event) ''payload'') ''data''
                else default_data now),
        vibrate = [200, 100, 200],
        actions = standard_actions\<rparr>)]"
proof -
  have "shown (case msg_ports event of [] \<Rightarrow> [] | port # others \<Rightarrow> [PostMessage port m]) = []"
    for m
    by (cases "msg_ports event") simp_all
  then show ?thesis
    by (simp add: message_handler_show [OF assms] all_calls_def js_or_def)
qed

text \<open>The payload \<^verbatim>\<open>{title: 'T', body: 'B'}\<close>: one notification, title \<^verbatim>\<open>T\<close>, body \<^verbatim>\<open>B\<close>.\<close>

theorem message_show_notification_fields_witness:
  "has_type (msg_data (show_message title_and_body [3])) ''SHOW_NOTIFICATION'' \<and>
   \<not> nullish (get_prop (msg_data (show_message title_and_body [3])) ''payload'') \<and>
   shown (all_calls (message_handler 0 (show_message title_and_body [3]) Fulfilled)) =
     [(JStr ''T'',
       \<lparr>body = JStr ''B'', icon = JStr ''/vite.svg'', badge = JStr ''/vite.svg'',
        tag = JStr ''prayer-notification'', requireInteraction = JBool False,
        data = default_data 0, vibrate = [200, 100, 200], actions = standard_actions\<rparr>)]"
proof -
  have a: "has_type (msg_data (show_message title_and_body [3])) ''SHOW_NOTIFICATION''"
    by (simp add: show_message_def has_type_def get_prop_def)
  have b: "\<not> nullish (get_prop (msg_data (show_message title_and_body [3])) ''payload'')"
    by (simp add: show_message_def title_and_body_def get_prop_def)
  from message_show_notification_fields [OF a b, of 0 Fulfilled] have
    "shown (all_calls (message_handler 0 (show_message title_and_body [3]) Fulfilled)) =
     [(JStr ''T'',
       \<lparr>body = JStr ''B'', icon = JStr ''/vite.svg'', badge = JStr ''/vite.svg'',
        tag = JStr ''prayer-notification'', requireInteraction = JBool False,
        data = default_data 0, vibrate = [200, 100, 200], actions = standard_actions\<rparr>)]"
    by (simp add: show_message_def title_and_body_def get_prop_def)
  with a b show ?thesis by blast
qed

text \<open>
  The reply does not wait for the notification. Here the permission is missing and
  \<^verbatim>\<open>showNotification\<close> rejects: the reply \<^verbatim>\<open>{success: true}\<close> is posted all the same, in the
  run of the listener, which ends before the promise settles.
\<close>

theorem message_reply_without_resolved_show_counterexample:
  "calls_now (message_handler 0 (show_message title_and_body [3])
      (Rejected (JsError ''TypeError: No notification permission has been granted''))) =
     [ConsoleLog ''Service Worker received message:''
        [LVal (msg_data (show_message title_and_body [3]))],
      ShowNotification (JStr ''T'')
        \<lparr>body = JStr ''B'', icon = JStr ''/vite.svg'', badge = JStr ''/vite.svg'',
         tag = JStr ''prayer-notification'', requireInteraction = JBool False,
         data = default_data 0, vibrate = [200, 100, 200], actions = standard_actions\<rparr>,
      PostMessage 3 success_reply] \<and>
   wait_until (message_handler 0 (show_message title_and_body [3])
      (Rejected (JsError ''TypeError: No notification permission has been granted''))) =
     Some (Rejected (JsError ''TypeError: No notification permission has been granted''))"
  by (simp add: message_handler_def show_notification_branch_def show_message_def has_type_def
      title_and_body_def get_prop_def js_or_def control_branches_def default_data_def
      success_reply_def NOTIFICATION_ICON_def standard_vibrate_def)

text \<open>
  C3, as the listener has it. A \<^verbatim>\<open>SHOW_NOTIFICATION\<close> message whose payload is not
  \<^verbatim>\<open>undefined\<close> or \<^verbatim>\<open>null\<close>: when ports were sent along, exactly one reply
  \<^verbatim>\<open>{success: true}\<close> is posted, over the first port; with no port, none. The reply is
  posted in the run of the listener right after the call of \<^verbatim>\<open>showNotification\<close>, so before
  that operation settles and whichever way it settles; nothing is posted later.
\<close>

theorem message_reply_posted_in_same_run:
  assumes "has_type (msg_data event) ''SHOW_NOTIFICATION''"
    and "\<not> nullish (get_prop (msg_data event) ''payload'')"
  shows "replies (all_calls (message_handler now event show_res)) =
       (case msg_ports event of [] \<Rightarrow> [] | port # others \<Rightarrow> [(port, success_reply)]) \<and>
     (\<exists>t opts. calls_now (message_handler now event show_res) =
        ConsoleLog ''Service Worker received message:'' [LVal (msg_data event)] #
        ShowNotification t opts #
        map (\<lambda>(port, m). PostMessage port m)
          (replies (all_calls (message_handler now event show_res)))) \<and>
     calls_later (message_handler now event show_res) = []"
proof (cases "msg_ports event")
  case Nil
  then show ?thesis
    by (simp add: message_handler_show [OF assms] all_calls_def)
next
  case (Cons port others)
  then show ?thesis
    by (simp add: message_handler_show [OF assms] all_calls_def)
qed

theorem message_reply_posted_in_same_run_witness:
  "has_type (msg_data (show_message title_and_body [3])) ''SHOW_NOTIFICATION'' \<and>
   \<not> nullish (get_prop (msg_data (show_message title_and_body [3])) ''payload'') \<and>
   replies (all_calls (message_handler 0 (show_message title_and_body [3]) Fulfilled)) =
     [(3, success_reply)] \<and>
   calls_later (message_handler 0 (show_message title_and_body [3]) Fulfilled) = []"
proof -
  have a: "has_type (msg_data (show_message title_and_body [3])) ''SHOW_NOTIFICATION''"
    by (simp add: show_message_def has_type_def get_prop_def)
  have b: "\<not> nullish (get_prop (msg_data (show_message title_and_body [3])) ''payload'')"
    by (simp add: show_message_def title_and_body_def get_prop_def)
  from message_reply_posted_in_same_run [OF a b, of 0 Fulfilled] have
    "replies (all_calls (message_handler 0 (show_message title_and_body [3]) Fulfilled)) =
     [(3, success_reply)] \<and>
     calls_later (message_handler 0 (show_message title_and_body [3]) Fulfilled) = []"
    by (simp add: show_message_def)
  with a b show ?thesis by blast
qed

end
